theory Spec2Isabelle
  imports Complex_Main
begin

section \<open>Numbers of the host language\<close>

text \<open>
  The program is Python. Its numbers are Python numbers (integers and binary floating
  point values read from the data provider). This development reads every number as an
  exact real: the comparisons, the branch structure and the formulas are those of the
  source, and binary rounding error of the floating point operations is not part of the
  model. Decimal literals such as \<open>0.015\<close> denote the exact fraction.

  \<open>round(x, 2)\<close> rounds to two decimal places, ties to the even neighbour.
\<close>

definition round_half_even :: "real \<Rightarrow> int" where
  "round_half_even x =
     (let f = \<lfloor>x\<rfloor>; d = x - of_int f
      in if d < 1 / 2 then f
         else if 1 / 2 < d then f + 1
         else if even f then f else f + 1)"

definition round2 :: "real \<Rightarrow> real" where
  "round2 x = of_int (round_half_even (x * 100)) / 100"

section \<open>The valuation engine: \<open>evaluate\<close>\<close>

text \<open>
  The dictionary that \<open>get_stock_data_sync\<close> returns, one field per key. The fields
  are typed as the specification's MarketSnapshot types them.
\<close>

record snapshot =
  symbol :: string
  name :: string
  current_price :: real
  future_eps :: real
  target_mean :: real
  beta :: real
  ebitda :: real
  total_debt :: real
  total_cash :: real
  shares :: real
  currency :: string

text \<open>An entry of \<open>ind_map\<close>: \<open>{'pe': ..., 'growth': ...}\<close>.\<close>

record industry_params =
  pe :: real
  growth :: real

text \<open>
  The six industry labels are the Chinese words of the source, given here by their
  UTF-8 bytes: technology, healthcare, financial, energy, consumer, industrial.
  Dictionary lookup compares labels for equality only.
\<close>

definition label_technology :: string where
  "label_technology = [CHR 0xE7, CHR 0xA7, CHR 0x91, CHR 0xE6, CHR 0x8A, CHR 0x80]"

definition label_healthcare :: string where
  "label_healthcare = [CHR 0xE9, CHR 0x86, CHR 0xAB, CHR 0xE7, CHR 0x99, CHR 0x82]"

definition label_financial :: string where
  "label_financial = [CHR 0xE9, CHR 0x87, CHR 0x91, CHR 0xE8, CHR 0x9E, CHR 0x8D]"

definition label_energy :: string where
  "label_energy = [CHR 0xE8, CHR 0x83, CHR 0xBD, CHR 0xE6, CHR 0xBA, CHR 0x90]"

definition label_consumer :: string where
  "label_consumer = [CHR 0xE6, CHR 0xB6, CHR 0x88, CHR 0xE8, CHR 0xB2, CHR 0xBB]"

definition label_industrial :: string where
  "label_industrial = [CHR 0xE5, CHR 0xB7, CHR 0xA5, CHR 0xE6, CHR 0xA5, CHR 0xAD]"

definition is_tw :: "snapshot \<Rightarrow> bool" where
  "is_tw d = (currency d = ''TWD'')"

definition ind_map :: "bool \<Rightarrow> (string \<times> industry_params) list" where
  "ind_map tw =
     [(label_technology, \<lparr>pe = (if \<not> tw then 25 else 18), growth = 0.04\<rparr>),
      (label_healthcare, \<lparr>pe = (if \<not> tw then 22 else 20), growth = 0.03\<rparr>),
      (label_financial, \<lparr>pe = (if \<not> tw then 12 else 10), growth = 0.02\<rparr>),
      (label_energy, \<lparr>pe = (if \<not> tw then 10 else 8), growth = 0.02\<rparr>),
      (label_consumer, \<lparr>pe = (if \<not> tw then 18 else 15), growth = 0.03\<rparr>),
      (label_industrial, \<lparr>pe = (if \<not> tw then 15 else 12), growth = 0.025\<rparr>)]"

text \<open>
  \<open>ind_map.get(industry, ind_map[technology])\<close>. The default entry is read by its key,
  which the table holds (lemma \<open>ind_map_technology\<close> below).
\<close>

definition ind_get :: "bool \<Rightarrow> string \<Rightarrow> industry_params" where
  "ind_get tw industry =
     (case map_of (ind_map tw) industry of
        Some p \<Rightarrow> p
      | None \<Rightarrow> the (map_of (ind_map tw) label_technology))"

definition rf :: "snapshot \<Rightarrow> real" where
  "rf d = (if is_tw d then 0.015 else 0.042)"

definition wacc_val :: "snapshot \<Rightarrow> real" where
  "wacc_val d = max (rf d + beta d * 0.055) 0.05"

definition v_pe :: "snapshot \<Rightarrow> industry_params \<Rightarrow> real" where
  "v_pe d ind = (if future_eps d > 0 then future_eps d * pe ind else 0)"

definition v_ev :: "snapshot \<Rightarrow> real" where
  "v_ev d =
     (if ebitda d > 0 \<and> shares d > 0
      then (ebitda d * 12 - total_debt d + total_cash d) / shares d
      else 0)"

definition v_dcf :: "snapshot \<Rightarrow> industry_params \<Rightarrow> real" where
  "v_dcf d ind =
     (if future_eps d > 0
      then (future_eps d * (1 + growth ind)) / max (wacc_val d - growth ind) 0.015
      else 0)"

definition v_analyst :: "snapshot \<Rightarrow> real" where
  "v_analyst d = target_mean d"

definition valid_vals :: "snapshot \<Rightarrow> industry_params \<Rightarrow> real list" where
  "valid_vals d ind = filter (\<lambda>v. v > 0) [v_pe d ind, v_ev d, v_dcf d ind, v_analyst d]"

definition final_target :: "snapshot \<Rightarrow> industry_params \<Rightarrow> real" where
  "final_target d ind =
     (if valid_vals d ind \<noteq> []
      then sum_list (valid_vals d ind) / real (length (valid_vals d ind))
      else current_price d)"

text \<open>
  The response dictionary. \<open>out_wacc\<close> holds the number that the source renders into
  the string \<open>wacc_str\<close> in front of the percent sign; the rendering of a floating point
  number as text is not modelled.
\<close>

record valuation =
  out_symbol :: string
  out_name :: string
  out_current_price :: real
  out_target :: real
  out_analyst_target :: real
  out_pe :: real
  out_ev :: real
  out_dcf :: real
  out_wacc :: real
  out_currency :: string
  out_data_source :: string

datatype http_error = HTTPException nat

text \<open>
  The body of \<open>evaluate\<close> after the snapshot has been awaited: \<open>data\<close> is \<open>None\<close>
  when the resolver returned \<open>None\<close>.
\<close>

definition evaluate_data :: "snapshot option \<Rightarrow> string \<Rightarrow> http_error + valuation" where
  "evaluate_data data industry =
     (case data of
        None \<Rightarrow> Inl (HTTPException 404)
      | Some d \<Rightarrow>
          if current_price d = 0 then Inl (HTTPException 404)
          else
            let ind = ind_get (is_tw d) industry
            in Inr \<lparr>out_symbol = symbol d,
                    out_name = name d,
                    out_current_price = round2 (current_price d),
                    out_target = round2 (final_target d ind),
                    out_analyst_target = round2 (v_analyst d),
                    out_pe = round2 (v_pe d ind),
                    out_ev = round2 (v_ev d),
                    out_dcf = round2 (v_dcf d ind),
                    out_wacc = round2 (wacc_val d * 100),
                    out_currency = (if is_tw d then ''NT$'' else ''$''),
                    out_data_source = ''Yahoo Finance (Global)''\<rparr>)"

section \<open>The market data resolver: \<open>get_stock_data_sync\<close>\<close>

subsection \<open>Strings and their methods\<close>

text \<open>
  A Python string is a sequence of Unicode code points. It is represented here by its
  UTF-8 encoding: the encoding is injective and the encoding of a concatenation is the
  concatenation of the encodings, so the comparisons of strings, the dictionary
  lookups by a string and the formatted strings \<open>f"{raw_ticker}.TW"\<close> and
  \<open>f"{raw_ticker}.TWO"\<close> of the source are comparison, lookup and \<open>@\<close> on the
  representation.

  The resolver calls three methods of the string type: \<open>strip\<close>, \<open>upper\<close> and
  \<open>isdigit\<close>. They are part of the language, not of the program, and what they do on a
  string is fixed by the Unicode character database (\<open>isdigit\<close> holds of full-width and
  superscript digits, \<open>strip\<close> removes every Unicode white space, \<open>upper\<close> follows the
  Unicode case mapping). They are parameters of the model: the resolver takes them as
  a record, and every theorem about the resolver holds for every choice of the three
  functions.
\<close>

record str_methods =
  strip :: "string \<Rightarrow> string"
  upper :: "string \<Rightarrow> string"
  isdigit :: "string \<Rightarrow> bool"

subsection \<open>The external data source\<close>

text \<open>
  The info dictionary of the data provider, restricted to the keys the program reads.
  \<open>None\<close> is an absent key; a present key holds a value of the type the program uses it
  at.
\<close>

record info =
  info_symbol :: "string option"
  info_shortName :: "string option"
  info_currentPrice :: "real option"
  info_regularMarketPrice :: "real option"
  info_forwardEps :: "real option"
  info_trailingEps :: "real option"
  info_targetMeanPrice :: "real option"
  info_beta :: "real option"
  info_ebitda :: "real option"
  info_totalDebt :: "real option"
  info_totalCash :: "real option"
  info_sharesOutstanding :: "real option"
  info_currency :: "string option"

text \<open>
  Reading \<open>yf.Ticker(t).info\<close> either raises or returns; what it returns is a
  dictionary, or nothing (\<open>None\<close> or the empty dictionary, both false in a condition).
  The data source is a parameter of the model: a function from the queried symbol to the
  outcome of the query. Constructing the \<open>Ticker\<close> object sends no query and is taken
  not to raise.
\<close>

datatype response = Raises | Returns "info option"

type_synonym source = "string \<Rightarrow> response"

subsection \<open>The resolver\<close>

text \<open>\<open>raw_ticker = ticker_str.strip().upper()\<close>\<close>

definition raw_ticker_of :: "str_methods \<Rightarrow> string \<Rightarrow> string" where
  "raw_ticker_of py ticker_str = upper py (strip py ticker_str)"

definition search_tickers :: "str_methods \<Rightarrow> string \<Rightarrow> string list" where
  "search_tickers py raw_ticker =
     (if isdigit py raw_ticker then [raw_ticker @ ''.TW'', raw_ticker @ ''.TWO'']
      else [raw_ticker])"

text \<open>\<open>'currentPrice' in temp_info or 'regularMarketPrice' in temp_info\<close>\<close>

definition has_price :: "info \<Rightarrow> bool" where
  "has_price i = (info_currentPrice i \<noteq> None \<or> info_regularMarketPrice i \<noteq> None)"

text \<open>
  The loop over the candidates. The result is the pair \<open>(info, final_ticker)\<close> of the
  accepted candidate, if any; the first component is the list of the symbols queried,
  in the order of the queries, which is the loop's only effect on the outside.
\<close>

fun try_tickers :: "source \<Rightarrow> string list \<Rightarrow> string list \<times> (info \<times> string) option" where
  "try_tickers src [] = ([], None)"
| "try_tickers src (t # ts) =
     (case src t of
        Raises \<Rightarrow> (case try_tickers src ts of (q, r) \<Rightarrow> (t # q, r))
      | Returns None \<Rightarrow> (case try_tickers src ts of (q, r) \<Rightarrow> (t # q, r))
      | Returns (Some temp_info) \<Rightarrow>
          if has_price temp_info then ([t], Some (temp_info, t))
          else (case try_tickers src ts of (q, r) \<Rightarrow> (t # q, r)))"

text \<open>\<open>d.get(k, default)\<close> and \<open>a or b\<close> on numbers (zero and \<open>None\<close> are false).\<close>

definition get_default :: "'a option \<Rightarrow> 'a \<Rightarrow> 'a" where
  "get_default v dflt = (case v of Some x \<Rightarrow> x | None \<Rightarrow> dflt)"

definition or_else :: "real option \<Rightarrow> real \<Rightarrow> real" where
  "or_else a b = (case a of Some x \<Rightarrow> (if x \<noteq> 0 then x else b) | None \<Rightarrow> b)"

definition build_snapshot :: "str_methods \<Rightarrow> info \<Rightarrow> string \<Rightarrow> snapshot" where
  "build_snapshot py i final_ticker =
     \<lparr>symbol = upper py (get_default (info_symbol i) final_ticker),
      name = get_default (info_shortName i) [],
      current_price = or_else (info_currentPrice i) (get_default (info_regularMarketPrice i) 0),
      future_eps = or_else (info_forwardEps i) (get_default (info_trailingEps i) 0),
      target_mean = get_default (info_targetMeanPrice i) 0,
      beta = get_default (info_beta i) 1.0,
      ebitda = get_default (info_ebitda i) 0,
      total_debt = get_default (info_totalDebt i) 0,
      total_cash = get_default (info_totalCash i) 0,
      shares = get_default (info_sharesOutstanding i) 1,
      currency = get_default (info_currency i) ''USD''\<rparr>"

definition get_stock_data_sync :: "str_methods \<Rightarrow> source \<Rightarrow> string \<Rightarrow> snapshot option" where
  "get_stock_data_sync py src ticker_str =
     (case snd (try_tickers src (search_tickers py (raw_ticker_of py ticker_str))) of
        None \<Rightarrow> None
      | Some (i, final_ticker) \<Rightarrow> Some (build_snapshot py i final_ticker))"

text \<open>The symbols that one call of \<open>get_stock_data_sync\<close> queries, in order.\<close>

definition queried :: "str_methods \<Rightarrow> source \<Rightarrow> string \<Rightarrow> string list" where
  "queried py src ticker_str =
     fst (try_tickers src (search_tickers py (raw_ticker_of py ticker_str)))"

text \<open>
  The request handler: resolve the ticker, then evaluate. The data source is the only
  thing outside its two arguments that the handler reads.
\<close>

definition evaluate ::
  "str_methods \<Rightarrow> source \<Rightarrow> string \<Rightarrow> string \<Rightarrow> http_error + valuation" where
  "evaluate py src ticker industry =
     evaluate_data (get_stock_data_sync py src ticker) industry"

text \<open>A candidate is accepted when its query returns a record with a price key.\<close>

definition accepted :: "source \<Rightarrow> string \<Rightarrow> bool" where
  "accepted src t =
     (case src t of
        Raises \<Rightarrow> False
      | Returns None \<Rightarrow> False
      | Returns (Some i) \<Rightarrow> has_price i)"

section \<open>Concrete inputs\<close>

text \<open>
  Snapshots, string methods and data sources at which the theorems below are instantiated.
  \<open>example_twd\<close> is the snapshot of the specification's worked example.
\<close>

definition example_twd :: snapshot where
  "example_twd =
     \<lparr>symbol = ''2881.TW'', name = ''FUBON'', current_price = 100, future_eps = 10,
      target_mean = 0, beta = 1.0, ebitda = 0, total_debt = 5, total_cash = 7,
      shares = 1000, currency = ''TWD''\<rparr>"

text \<open>Debt above twelve times EBITDA plus cash: the EV/EBITDA estimate is negative.\<close>

definition example_debt :: snapshot where
  "example_debt =
     \<lparr>symbol = ''2881.TW'', name = ''FUBON'', current_price = 100, future_eps = 10,
      target_mean = 0, beta = 1.0, ebitda = 1, total_debt = 100, total_cash = 0,
      shares = 1, currency = ''TWD''\<rparr>"

text \<open>No model gives an estimate.\<close>

definition example_bare :: snapshot where
  "example_bare =
     \<lparr>symbol = ''XYZ'', name = [], current_price = 42, future_eps = 0,
      target_mean = 0, beta = 1.0, ebitda = 0, total_debt = 0, total_cash = 0,
      shares = 1, currency = ''USD''\<rparr>"

text \<open>A foreign snapshot with beta \<open>-10\<close>.\<close>

definition example_low_beta :: snapshot where
  "example_low_beta =
     \<lparr>symbol = ''XYZ'', name = [], current_price = 42, future_eps = 0,
      target_mean = 0, beta = - 10, ebitda = 0, total_debt = 0, total_cash = 0,
      shares = 1, currency = ''USD''\<rparr>"

text \<open>A resolved snapshot whose price is zero.\<close>

definition example_zero_price :: snapshot where
  "example_zero_price =
     \<lparr>symbol = ''XYZ'', name = [], current_price = 0, future_eps = 3,
      target_mean = 10, beta = 1.0, ebitda = 0, total_debt = 0, total_cash = 0,
      shares = 1, currency = ''USD''\<rparr>"

text \<open>
  An instance of the string methods for the examples: on a string of ASCII characters
  these three functions are Python's \<open>strip\<close>, \<open>upper\<close> and \<open>isdigit\<close> (white space
  is then the characters 9 to 13 and 28 to 32, the digits are 0 to 9 and only a to z
  change case). The examples apply them to ASCII strings only, and no theorem about
  the resolver depends on them.
\<close>

definition ascii_is_space :: "char \<Rightarrow> bool" where
  "ascii_is_space c =
     (let n = (of_char c :: nat) in (9 \<le> n \<and> n \<le> 13) \<or> (28 \<le> n \<and> n \<le> 32))"

definition ascii_strip :: "string \<Rightarrow> string" where
  "ascii_strip s = rev (dropWhile ascii_is_space (rev (dropWhile ascii_is_space s)))"

definition ascii_upper_char :: "char \<Rightarrow> char" where
  "ascii_upper_char c =
     (let n = (of_char c :: nat) in if 97 \<le> n \<and> n \<le> 122 then char_of (n - 32) else c)"

definition ascii_upper :: "string \<Rightarrow> string" where
  "ascii_upper s = map ascii_upper_char s"

definition ascii_is_digit :: "char \<Rightarrow> bool" where
  "ascii_is_digit c = (let n = (of_char c :: nat) in 48 \<le> n \<and> n \<le> 57)"

definition ascii_isdigit :: "string \<Rightarrow> bool" where
  "ascii_isdigit s = (s \<noteq> [] \<and> list_all ascii_is_digit s)"

definition ascii_methods :: str_methods where
  "ascii_methods = \<lparr>strip = ascii_strip, upper = ascii_upper, isdigit = ascii_isdigit\<rparr>"

definition example_info :: info where
  "example_info =
     \<lparr>info_symbol = Some ''2330.two'', info_shortName = Some ''TSMC'',
      info_currentPrice = None, info_regularMarketPrice = Some 600,
      info_forwardEps = Some 0, info_trailingEps = Some 30,
      info_targetMeanPrice = None, info_beta = None, info_ebitda = Some 100,
      info_totalDebt = Some 2000, info_totalCash = None,
      info_sharesOutstanding = Some 10, info_currency = Some ''TWD''\<rparr>"

text \<open>
  A record that has the key \<open>currentPrice\<close>, with the price 0, and reports a symbol of
  its own.
\<close>

definition example_info_zero :: info where
  "example_info_zero =
     \<lparr>info_symbol = Some ''TSM'', info_shortName = Some ''TSMC'',
      info_currentPrice = Some 0, info_regularMarketPrice = None,
      info_forwardEps = None, info_trailingEps = None,
      info_targetMeanPrice = None, info_beta = None, info_ebitda = None,
      info_totalDebt = None, info_totalCash = None,
      info_sharesOutstanding = None, info_currency = Some ''TWD''\<rparr>"

text \<open>
  A data source where the query of \<open>2330.TW\<close> raises, the query of \<open>2330.TWO\<close> returns
  \<open>example_info\<close>, and every other query returns nothing.
\<close>

definition example_source :: source where
  "example_source t =
     (if t = ''2330.TW'' then Raises
      else if t = ''2330.TWO'' then Returns (Some example_info)
      else Returns None)"

text \<open>A data source where the query of \<open>2330.TW\<close> already returns \<open>example_info\<close>.\<close>

definition example_source_listed :: source where
  "example_source_listed t =
     (if t = ''2330.TW'' then Returns (Some example_info) else Raises)"


text \<open>
  A data source where the query of \<open>2330.TW\<close> raises and the query of \<open>2330.TWO\<close>
  returns \<open>example_info_zero\<close>.
\<close>

definition example_source_zero :: source where
  "example_source_zero t =
     (if t = ''2330.TW'' then Raises
      else if t = ''2330.TWO'' then Returns (Some example_info_zero)
      else Returns None)"

section \<open>Properties of the valuation engine\<close>

lemma ind_map_technology:
  "map_of (ind_map tw) label_technology =
     Some \<lparr>pe = (if \<not> tw then 25 else 18), growth = 0.04\<rparr>"
  by (simp add: ind_map_def)

lemma ind_get_financial:
  "ind_get tw label_financial = \<lparr>pe = (if \<not> tw then 12 else 10), growth = 0.02\<rparr>"
  by (simp add: ind_get_def ind_map_def label_technology_def label_healthcare_def
      label_financial_def)

lemma round2_of_int: "round2 (of_int n) = of_int n"
proof -
  have "\<lfloor>(of_int n :: real) * 100\<rfloor> = n * 100"
    by (metis floor_of_int of_int_mult of_int_numeral)
  then show ?thesis
    by (simp add: round2_def round_half_even_def Let_def)
qed

lemma evaluate_data_ok:
  assumes "current_price d \<noteq> 0"
  shows "evaluate_data (Some d) industry =
     Inr \<lparr>out_symbol = symbol d,
          out_name = name d,
          out_current_price = round2 (current_price d),
          out_target = round2 (final_target d (ind_get (is_tw d) industry)),
          out_analyst_target = round2 (v_analyst d),
          out_pe = round2 (v_pe d (ind_get (is_tw d) industry)),
          out_ev = round2 (v_ev d),
          out_dcf = round2 (v_dcf d (ind_get (is_tw d) industry)),
          out_wacc = round2 (wacc_val d * 100),
          out_currency = (if is_tw d then ''NT$'' else ''$''),
          out_data_source = ''Yahoo Finance (Global)''\<rparr>"
  using assms by (simp add: evaluate_data_def Let_def)

lemma sum_list_pos:
  fixes xs :: "real list"
  assumes "xs \<noteq> []" and "\<forall>x\<in>set xs. 0 < x"
  shows "0 < sum_list xs"
  using assms
proof (induction xs)
  case Nil
  then show ?case by simp
next
  case (Cons x xs)
  show ?case
  proof (cases "xs = []")
    case True
    with Cons.prems show ?thesis by simp
  next
    case False
    with Cons have "0 < sum_list xs" by simp
    moreover have "0 < x" using Cons.prems by simp
    ultimately show ?thesis by simp
  qed
qed

lemma valid_vals_pos: "\<forall>v\<in>set (valid_vals d ind). 0 < v"
  by (simp add: valid_vals_def)

lemma no_estimates:
  assumes "future_eps d \<le> 0" and "\<not> (0 < ebitda d \<and> 0 < shares d)" and "target_mean d = 0"
  shows "valid_vals d ind = []"
  using assms by (auto simp: valid_vals_def v_pe_def v_ev_def v_dcf_def v_analyst_def)

text \<open>The estimates of the two example snapshots, used by the instances below.\<close>

lemma example_twd_fields:
  "currency example_twd = ''TWD''" "future_eps example_twd = 10" "beta example_twd = 1.0"
  "ebitda example_twd = 0" "target_mean example_twd = 0" "current_price example_twd = 100"
  by (simp_all add: example_twd_def)

lemma example_twd_dcf:
  "v_dcf example_twd (ind_get (is_tw example_twd) label_financial) = 204"
proof -
  have tw: "is_tw example_twd" by (simp add: is_tw_def example_twd_def)
  have ind: "ind_get (is_tw example_twd) label_financial = \<lparr>pe = 10, growth = 0.02\<rparr>"
    using tw by (simp add: ind_get_financial)
  have wacc: "wacc_val example_twd = 0.07"
    using tw by (simp add: wacc_val_def rf_def example_twd_def)
  have eps: "future_eps example_twd = 10" by (simp add: example_twd_def)
  show ?thesis by (simp add: v_dcf_def ind wacc eps)
qed

lemma example_debt_v_ev: "v_ev example_debt = - 88"
  by (simp add: v_ev_def example_debt_def)

lemma example_debt_target:
  "final_target example_debt (ind_get (is_tw example_debt) label_financial) = 152"
proof -
  let ?ind = "ind_get (is_tw example_debt) label_financial"
  have tw: "is_tw example_debt" by (simp add: is_tw_def example_debt_def)
  have ind: "?ind = \<lparr>pe = 10, growth = 0.02\<rparr>" using tw by (simp add: ind_get_financial)
  have wacc: "wacc_val example_debt = 0.07"
    using tw by (simp add: wacc_val_def rf_def example_debt_def)
  have eps: "future_eps example_debt = 10" by (simp add: example_debt_def)
  have pe: "v_pe example_debt ?ind = 100" by (simp add: v_pe_def ind eps)
  have dcf: "v_dcf example_debt ?ind = 204" by (simp add: v_dcf_def ind wacc eps)
  have an: "v_analyst example_debt = 0" by (simp add: v_analyst_def example_debt_def)
  have vv: "valid_vals example_debt ?ind = [100, 204]"
    by (simp add: valid_vals_def pe dcf an example_debt_v_ev)
  show ?thesis by (simp add: final_target_def vv)
qed

text \<open>
  C1. For a snapshot with currency \<open>TWD\<close>, future EPS 10, beta 1.0, EBITDA 0, analyst
  target 0 and current price 100, and the industry label financial, the engine takes
  the domestic branch with P/E multiple 10 and growth 0.02, computes a risk-free rate
  of 0.015, a WACC of 0.07, a P/E estimate of 100, a DCF estimate of 204, an EV/EBITDA
  estimate of 0 and an analyst estimate of 0, and returns the blended target 152.
\<close>

theorem example_twd_financial:
  assumes "currency d = ''TWD''" and "future_eps d = 10" and "beta d = 1.0"
    and "ebitda d = 0" and "target_mean d = 0" and "current_price d = 100"
  shows "is_tw d \<and>
         ind_get (is_tw d) label_financial = \<lparr>pe = 10, growth = 0.02\<rparr> \<and>
         rf d = 0.015 \<and>
         wacc_val d = 0.07 \<and>
         v_pe d (ind_get (is_tw d) label_financial) = 100 \<and>
         v_dcf d (ind_get (is_tw d) label_financial) = 204 \<and>
         v_ev d = 0 \<and>
         v_analyst d = 0 \<and>
         final_target d (ind_get (is_tw d) label_financial) = 152 \<and>
         (\<exists>r. evaluate_data (Some d) label_financial = Inr r \<and> out_target r = 152)"
proof -
  let ?ind = "ind_get (is_tw d) label_financial"
  have tw: "is_tw d" using assms(1) by (simp add: is_tw_def)
  have ind: "?ind = \<lparr>pe = 10, growth = 0.02\<rparr>"
    using tw by (simp add: ind_get_financial)
  have rf: "rf d = 0.015" using tw by (simp add: rf_def)
  have wacc: "wacc_val d = 0.07" using rf assms(3) by (simp add: wacc_val_def)
  have pe: "v_pe d ?ind = 100" using assms(2) by (simp add: v_pe_def ind)
  have dcf: "v_dcf d ?ind = 204" by (simp add: v_dcf_def ind wacc assms(2))
  have ev: "v_ev d = 0" using assms(4) by (simp add: v_ev_def)
  have an: "v_analyst d = 0" using assms(5) by (simp add: v_analyst_def)
  have vv: "valid_vals d ?ind = [100, 204]"
    by (simp add: valid_vals_def pe dcf ev an)
  have ft: "final_target d ?ind = 152" by (simp add: final_target_def vv)
  have r152: "round2 152 = 152" using round2_of_int [of 152] by simp
  have "\<exists>r. evaluate_data (Some d) label_financial = Inr r \<and> out_target r = 152"
    using assms(6) by (simp add: evaluate_data_def Let_def ft r152)
  with tw ind rf wacc pe dcf ev an ft show ?thesis by blast
qed

theorem example_twd_financial_witness:
  "wacc_val example_twd = 0.07 \<and>
   v_pe example_twd (ind_get (is_tw example_twd) label_financial) = 100 \<and>
   v_dcf example_twd (ind_get (is_tw example_twd) label_financial) = 204 \<and>
   final_target example_twd (ind_get (is_tw example_twd) label_financial) = 152 \<and>
   (\<exists>r. evaluate_data (Some example_twd) label_financial = Inr r \<and> out_target r = 152)"
  using example_twd_financial [OF example_twd_fields] by blast

text \<open>
  C2. For every snapshot with a positive current price, \<open>evaluate\<close> succeeds and its
  blended target (\<open>final_target\<close>, which the response carries rounded to two decimals)
  is the arithmetic mean of those of the four estimates P/E, EV/EBITDA, DCF and analyst
  that are strictly positive; when none is strictly positive, in particular when the
  future EPS is not positive, EBITDA or the share count is not positive and the analyst
  target is 0, the blended target is the current price.
\<close>

theorem blended_target_mean:
  assumes "0 < current_price d"
  shows "(\<exists>r. evaluate_data (Some d) industry = Inr r \<and>
              out_target r = round2 (final_target d (ind_get (is_tw d) industry))) \<and>
         final_target d ind =
           (let pos = filter (\<lambda>v. 0 < v) [v_pe d ind, v_ev d, v_dcf d ind, v_analyst d]
            in if pos = [] then current_price d else sum_list pos / real (length pos)) \<and>
         (future_eps d \<le> 0 \<and> \<not> (0 < ebitda d \<and> 0 < shares d) \<and> target_mean d = 0 \<longrightarrow>
            final_target d ind = current_price d)"
proof -
  have nz: "current_price d \<noteq> 0" using assms by simp
  have a: "\<exists>r. evaluate_data (Some d) industry = Inr r \<and>
              out_target r = round2 (final_target d (ind_get (is_tw d) industry))"
    by (simp add: evaluate_data_ok [OF nz])
  have b: "final_target d ind =
           (let pos = filter (\<lambda>v. 0 < v) [v_pe d ind, v_ev d, v_dcf d ind, v_analyst d]
            in if pos = [] then current_price d else sum_list pos / real (length pos))"
    unfolding final_target_def valid_vals_def Let_def by simp
  have c: "future_eps d \<le> 0 \<and> \<not> (0 < ebitda d \<and> 0 < shares d) \<and> target_mean d = 0 \<longrightarrow>
            final_target d ind = current_price d"
    by (simp add: final_target_def no_estimates)
  from a b c show ?thesis by blast
qed

theorem blended_target_mean_witness:
  "0 < current_price example_bare \<and>
   final_target example_bare (ind_get (is_tw example_bare) label_financial) = 42 \<and>
   current_price example_bare = 42"
proof -
  have pos: "0 < current_price example_bare" by (simp add: example_bare_def)
  have none: "future_eps example_bare \<le> 0 \<and>
      \<not> (0 < ebitda example_bare \<and> 0 < shares example_bare) \<and> target_mean example_bare = 0"
    by (simp add: example_bare_def)
  have cp: "current_price example_bare = 42" by (simp add: example_bare_def)
  from blended_target_mean [OF pos, of label_financial
      "ind_get (is_tw example_bare) label_financial"] none
  have "final_target example_bare (ind_get (is_tw example_bare) label_financial) =
      current_price example_bare"
    by blast
  with pos cp show ?thesis by simp
qed

text \<open>
  C3. For every snapshot, the risk-free rate is 0.015 when the currency is \<open>TWD\<close> and
  0.042 otherwise, the WACC is the maximum of risk-free rate plus beta times 0.055 and
  0.05, hence at least 0.05 for every beta; with beta \<open>-10\<close> and risk-free rate 0.042 it
  is exactly 0.05. The response reports it as a percentage, rounded to two decimals.
\<close>

theorem wacc_floor:
  "rf d = (if currency d = ''TWD'' then 0.015 else 0.042) \<and>
   wacc_val d = max (rf d + beta d * 0.055) 0.05 \<and>
   0.05 \<le> wacc_val d \<and>
   (beta d = - 10 \<and> rf d = 0.042 \<longrightarrow> wacc_val d = 0.05) \<and>
   (current_price d \<noteq> 0 \<longrightarrow>
      (\<exists>r. evaluate_data (Some d) industry = Inr r \<and> out_wacc r = round2 (wacc_val d * 100)))"
  by (simp add: rf_def is_tw_def wacc_val_def evaluate_data_ok)

theorem wacc_floor_witness:
  "beta example_low_beta = - 10 \<and> rf example_low_beta = 0.042 \<and>
   wacc_val example_low_beta = 0.05"
proof -
  have b: "beta example_low_beta = - 10" by (simp add: example_low_beta_def)
  have r: "rf example_low_beta = 0.042" by (simp add: rf_def is_tw_def example_low_beta_def)
  from wacc_floor [of example_low_beta label_financial] b r
  have "wacc_val example_low_beta = 0.05" by blast
  with b r show ?thesis by blast
qed

text \<open>
  C4. For every snapshot, the EV/EBITDA estimate is EBITDA times 12, minus total debt,
  plus total cash, divided by the shares outstanding, when EBITDA and the shares
  outstanding are both positive, and 0 otherwise. The response reports it rounded to
  two decimals.
\<close>

theorem ev_ebitda_estimate:
  "v_ev d =
     (if 0 < ebitda d \<and> 0 < shares d
      then (ebitda d * 12 - total_debt d + total_cash d) / shares d else 0) \<and>
   (current_price d \<noteq> 0 \<longrightarrow>
      (\<exists>r. evaluate_data (Some d) industry = Inr r \<and> out_ev r = round2 (v_ev d)))"
  by (simp add: v_ev_def evaluate_data_ok)

theorem ev_ebitda_estimate_witness:
  "current_price example_debt \<noteq> 0 \<and>
   v_ev example_debt = (1 * 12 - 100 + 0) / 1 \<and>
   (\<exists>r. evaluate_data (Some example_debt) label_financial = Inr r \<and> out_ev r = - 88)"
proof -
  have nz: "current_price example_debt \<noteq> 0" by (simp add: example_debt_def)
  have r88: "round2 (- 88) = - 88" using round2_of_int [of "- 88"] by simp
  from ev_ebitda_estimate [of example_debt label_financial] nz
  have "\<exists>r. evaluate_data (Some example_debt) label_financial = Inr r \<and>
      out_ev r = round2 (v_ev example_debt)"
    by blast
  then have "\<exists>r. evaluate_data (Some example_debt) label_financial = Inr r \<and> out_ev r = - 88"
    by (simp add: example_debt_v_ev r88)
  with nz show ?thesis by (simp add: example_debt_v_ev)
qed

text \<open>
  C5. For every snapshot and every industry profile, the DCF estimate is the future EPS
  times one plus the growth rate, divided by the maximum of WACC minus growth and
  0.015, when the future EPS is positive, and 0 otherwise. The divisor is at least
  0.015, so it is never zero, however close WACC and growth are. The response reports
  the estimate rounded to two decimals.
\<close>

theorem dcf_estimate:
  "v_dcf d ind =
     (if 0 < future_eps d
      then future_eps d * (1 + growth ind) / max (wacc_val d - growth ind) 0.015 else 0) \<and>
   0.015 \<le> max (wacc_val d - growth ind) 0.015 \<and>
   max (wacc_val d - growth ind) 0.015 \<noteq> 0 \<and>
   (current_price d \<noteq> 0 \<longrightarrow>
      (\<exists>r. evaluate_data (Some d) industry = Inr r \<and>
           out_dcf r = round2 (v_dcf d (ind_get (is_tw d) industry))))"
  by (simp add: v_dcf_def evaluate_data_ok)

theorem dcf_estimate_witness:
  "current_price example_twd \<noteq> 0 \<and>
   (\<exists>r. evaluate_data (Some example_twd) label_financial = Inr r \<and> out_dcf r = 204)"
proof -
  have nz: "current_price example_twd \<noteq> 0" by (simp add: example_twd_def)
  have r204: "round2 204 = 204" using round2_of_int [of 204] by simp
  note v = example_twd_dcf
  from dcf_estimate [of example_twd "ind_get (is_tw example_twd) label_financial"
      label_financial] nz
  have "\<exists>r. evaluate_data (Some example_twd) label_financial = Inr r \<and>
      out_dcf r = round2 (v_dcf example_twd (ind_get (is_tw example_twd) label_financial))"
    by blast
  with nz show ?thesis by (simp add: v r204)
qed

text \<open>
  C8. For every request, \<open>evaluate\<close> fails, with the HTTP status 404, exactly when the
  resolved snapshot is absent or its current price equals 0; it raises no other error,
  and a snapshot with current price 0 gives the very result of an absent snapshot.
\<close>

theorem not_found_iff:
  "(evaluate_data data industry = Inl (HTTPException 404)) =
     (data = None \<or> (\<exists>d. data = Some d \<and> current_price d = 0)) \<and>
   (\<exists>e. evaluate_data data industry = Inl e) =
     (data = None \<or> (\<exists>d. data = Some d \<and> current_price d = 0)) \<and>
   (\<forall>d. data = Some d \<and> current_price d = 0 \<longrightarrow>
      evaluate_data data industry = evaluate_data None industry) \<and>
   (evaluate py src ticker industry = Inl (HTTPException 404)) =
     (get_stock_data_sync py src ticker = None \<or>
      (\<exists>d. get_stock_data_sync py src ticker = Some d \<and> current_price d = 0))"
proof -
  have iff: "(evaluate_data x industry = Inl (HTTPException 404)) =
     (x = None \<or> (\<exists>d. x = Some d \<and> current_price d = 0))" for x
    by (cases x) (auto simp: evaluate_data_def Let_def)
  have only: "(\<exists>e. evaluate_data data industry = Inl e) =
     (data = None \<or> (\<exists>d. data = Some d \<and> current_price d = 0))"
    by (cases data) (auto simp: evaluate_data_def Let_def)
  have same: "\<forall>d. data = Some d \<and> current_price d = 0 \<longrightarrow>
      evaluate_data data industry = evaluate_data None industry"
    by (auto simp: evaluate_data_def)
  from iff [of data] only same iff [of "get_stock_data_sync py src ticker"]
  show ?thesis unfolding evaluate_def by (intro conjI)
qed

theorem not_found_iff_witness:
  "evaluate_data None label_financial = Inl (HTTPException 404) \<and>
   evaluate_data (Some example_zero_price) label_financial = Inl (HTTPException 404) \<and>
   evaluate_data (Some example_twd) label_financial \<noteq> Inl (HTTPException 404)"
proof -
  have z: "current_price example_zero_price = 0" by (simp add: example_zero_price_def)
  have nz: "current_price example_twd \<noteq> 0" by (simp add: example_twd_def)
  have a: "evaluate_data None label_financial = Inl (HTTPException 404)"
    using not_found_iff [of None label_financial] by blast
  have b: "evaluate_data (Some example_zero_price) label_financial = Inl (HTTPException 404)"
    using not_found_iff [of "Some example_zero_price" label_financial] z by blast
  have c: "evaluate_data (Some example_twd) label_financial \<noteq> Inl (HTTPException 404)"
    using not_found_iff [of "Some example_twd" label_financial] nz by simp
  from a b c show ?thesis by blast
qed

text \<open>
  C10. For every snapshot with a positive current price, the blended target before
  rounding is strictly positive: every estimate that enters the mean is strictly
  positive, the target is their mean when there is one, and the current price
  otherwise. When total debt exceeds twelve times EBITDA plus total cash (with EBITDA
  and shares positive) the EV/EBITDA estimate is negative; an EV/EBITDA estimate that
  is not positive is reported in the \<open>ev\<close> field of the response (rounded) and is left
  out of the mean, which is then taken over the positive ones of the other three
  estimates.
\<close>

theorem blended_target_positive:
  assumes "0 < current_price d"
  shows "0 < final_target d ind \<and>
         (\<forall>v\<in>set (valid_vals d ind). 0 < v) \<and>
         (valid_vals d ind \<noteq> [] \<longrightarrow>
            final_target d ind = sum_list (valid_vals d ind) / real (length (valid_vals d ind))) \<and>
         (valid_vals d ind = [] \<longrightarrow> final_target d ind = current_price d) \<and>
         (0 < ebitda d \<and> 0 < shares d \<and> ebitda d * 12 + total_cash d < total_debt d \<longrightarrow>
            v_ev d < 0) \<and>
         (v_ev d \<le> 0 \<longrightarrow>
            valid_vals d ind = filter (\<lambda>v. 0 < v) [v_pe d ind, v_dcf d ind, v_analyst d]) \<and>
         (\<exists>r. evaluate_data (Some d) industry = Inr r \<and> out_ev r = round2 (v_ev d))"
proof -
  have pos: "0 < final_target d ind"
  proof (cases "valid_vals d ind = []")
    case True
    then show ?thesis using assms by (simp add: final_target_def)
  next
    case False
    then have "0 < sum_list (valid_vals d ind)"
      by (rule sum_list_pos) (rule valid_vals_pos)
    moreover have "0 < real (length (valid_vals d ind))" using False by simp
    ultimately show ?thesis using False by (simp add: final_target_def)
  qed
  have neg: "0 < ebitda d \<and> 0 < shares d \<and> ebitda d * 12 + total_cash d < total_debt d \<longrightarrow>
            v_ev d < 0"
    by (simp add: v_ev_def divide_neg_pos)
  have drop: "v_ev d \<le> 0 \<longrightarrow>
            valid_vals d ind = filter (\<lambda>v. 0 < v) [v_pe d ind, v_dcf d ind, v_analyst d]"
    by (simp add: valid_vals_def)
  have nz: "current_price d \<noteq> 0" using assms by simp
  have out: "\<exists>r. evaluate_data (Some d) industry = Inr r \<and> out_ev r = round2 (v_ev d)"
    by (simp add: evaluate_data_ok [OF nz])
  have mean: "valid_vals d ind \<noteq> [] \<longrightarrow>
            final_target d ind = sum_list (valid_vals d ind) / real (length (valid_vals d ind))"
    by (simp add: final_target_def)
  have fallback: "valid_vals d ind = [] \<longrightarrow> final_target d ind = current_price d"
    by (simp add: final_target_def)
  note all_pos = valid_vals_pos [of d ind]
  from pos all_pos mean fallback neg drop out show ?thesis
    by (intro conjI)
qed

theorem blended_target_positive_witness:
  "0 < current_price example_debt \<and>
   ebitda example_debt * 12 + total_cash example_debt < total_debt example_debt \<and>
   v_ev example_debt = - 88 \<and>
   final_target example_debt (ind_get (is_tw example_debt) label_financial) = 152 \<and>
   0 < final_target example_debt (ind_get (is_tw example_debt) label_financial) \<and>
   (\<exists>r. evaluate_data (Some example_debt) label_financial = Inr r \<and> out_ev r = - 88)"
proof -
  let ?ind = "ind_get (is_tw example_debt) label_financial"
  have pos: "0 < current_price example_debt" by (simp add: example_debt_def)
  have debt: "ebitda example_debt * 12 + total_cash example_debt < total_debt example_debt"
    by (simp add: example_debt_def)
  have r88: "round2 (- 88) = - 88" using round2_of_int [of "- 88"] by simp
  note t = blended_target_positive [OF pos, of ?ind label_financial]
  from t have p: "0 < final_target example_debt ?ind" by blast
  from t have "\<exists>r. evaluate_data (Some example_debt) label_financial = Inr r \<and>
      out_ev r = round2 (v_ev example_debt)"
    by blast
  then have o: "\<exists>r. evaluate_data (Some example_debt) label_financial = Inr r \<and> out_ev r = - 88"
    by (simp add: example_debt_v_ev r88)
  from pos debt p o show ?thesis
    by (simp add: example_debt_v_ev example_debt_target)
qed

section \<open>Properties of the resolver\<close>

lemma try_tickers_skip:
  "\<not> accepted src t \<Longrightarrow>
     try_tickers src (t # ts) = (t # fst (try_tickers src ts), snd (try_tickers src ts))"
  by (simp add: accepted_def split: response.splits option.splits prod.splits)

lemma try_tickers_accept:
  "src t = Returns (Some i) \<Longrightarrow> has_price i \<Longrightarrow> try_tickers src (t # ts) = ([t], Some (i, t))"
  by simp

lemma try_tickers_first:
  "src t = Returns (Some i) \<Longrightarrow> has_price i \<Longrightarrow> snd (try_tickers src (t # ts)) = Some (i, t)"
  by simp

lemma accepted_cases:
  "accepted src t \<Longrightarrow> \<exists>i. src t = Returns (Some i) \<and> has_price i"
  by (simp add: accepted_def split: response.splits option.splits)

lemma raises_not_accepted: "src t = Raises \<Longrightarrow> \<not> accepted src t"
  by (simp add: accepted_def)

lemma try_tickers_none_iff:
  "snd (try_tickers src ts) = None \<longleftrightarrow> (\<forall>t\<in>set ts. \<not> accepted src t)"
proof (induction ts)
  case Nil
  then show ?case by simp
next
  case (Cons t ts)
  show ?case
  proof (cases "accepted src t")
    case True
    then obtain i where "src t = Returns (Some i)" and "has_price i"
      using accepted_cases by blast
    then have "try_tickers src (t # ts) = ([t], Some (i, t))" by (rule try_tickers_accept)
    with True show ?thesis by simp
  next
    case False
    have eq: "try_tickers src (t # ts) = (t # fst (try_tickers src ts), snd (try_tickers src ts))"
      by (rule try_tickers_skip [OF False])
    show ?thesis unfolding eq using Cons.IH False by simp
  qed
qed

lemma try_tickers_exhausted:
  "snd (try_tickers src ts) = None \<Longrightarrow> fst (try_tickers src ts) = ts"
proof (induction ts)
  case Nil
  then show ?case by simp
next
  case (Cons t ts)
  from Cons.prems have na: "\<not> accepted src t"
    using try_tickers_none_iff [of src "t # ts"] by simp
  have eq: "try_tickers src (t # ts) = (t # fst (try_tickers src ts), snd (try_tickers src ts))"
    by (rule try_tickers_skip [OF na])
  from Cons.prems have "snd (try_tickers src ts) = None" unfolding eq by simp
  with Cons.IH show ?case unfolding eq by simp
qed

lemma try_tickers_one: "fst (try_tickers src [t]) = [t]"
  by (simp split: response.splits option.splits)

lemma try_tickers_two:
  "fst (try_tickers src [t, u]) = (if accepted src t then [t] else [t, u])"
proof (cases "accepted src t")
  case True
  then obtain i where "src t = Returns (Some i)" and "has_price i"
    using accepted_cases by blast
  then have "try_tickers src [t, u] = ([t], Some (i, t))" by (rule try_tickers_accept)
  with True show ?thesis by simp
next
  case False
  have eq: "try_tickers src [t, u] = (t # fst (try_tickers src [u]), snd (try_tickers src [u]))"
    by (rule try_tickers_skip [OF False])
  show ?thesis unfolding eq using False by (simp only: try_tickers_one fst_conv if_False)
qed

text \<open>The first of two candidates is not accepted, the second is.\<close>

lemma resolve_second:
  assumes "isdigit py (raw_ticker_of py s)"
    and "\<not> accepted src (raw_ticker_of py s @ ''.TW'')"
    and "src (raw_ticker_of py s @ ''.TWO'') = Returns (Some i)"
    and "has_price i"
  shows "get_stock_data_sync py src s =
           Some (build_snapshot py i (raw_ticker_of py s @ ''.TWO''))"
    and "queried py src s = [raw_ticker_of py s @ ''.TW'', raw_ticker_of py s @ ''.TWO'']"
proof -
  let ?t = "raw_ticker_of py s @ ''.TW''" and ?u = "raw_ticker_of py s @ ''.TWO''"
  have cs: "search_tickers py (raw_ticker_of py s) = [?t, ?u]"
    using assms(1) by (simp add: search_tickers_def)
  have u: "try_tickers src [?u] = ([?u], Some (i, ?u))"
    using assms(3,4) by (rule try_tickers_accept)
  have "try_tickers src [?t, ?u] = (?t # fst (try_tickers src [?u]), snd (try_tickers src [?u]))"
    by (rule try_tickers_skip [OF assms(2)])
  then have tu: "try_tickers src [?t, ?u] = ([?t, ?u], Some (i, ?u))"
    unfolding u by simp
  show "get_stock_data_sync py src s = Some (build_snapshot py i ?u)"
    unfolding get_stock_data_sync_def cs tu by simp
  show "queried py src s = [?t, ?u]"
    unfolding queried_def cs tu by simp
qed

text \<open>The snapshot that the resolver builds, field by field.\<close>

lemma build_snapshot_fields:
  "build_snapshot py i final_ticker =
     \<lparr>symbol = upper py (case info_symbol i of Some x \<Rightarrow> x | None \<Rightarrow> final_ticker),
      name = (case info_shortName i of Some x \<Rightarrow> x | None \<Rightarrow> []),
      current_price =
        (case info_currentPrice i of
           Some x \<Rightarrow>
             if x \<noteq> 0 then x
             else (case info_regularMarketPrice i of Some y \<Rightarrow> y | None \<Rightarrow> 0)
         | None \<Rightarrow> (case info_regularMarketPrice i of Some y \<Rightarrow> y | None \<Rightarrow> 0)),
      future_eps =
        (case info_forwardEps i of
           Some x \<Rightarrow>
             if x \<noteq> 0 then x
             else (case info_trailingEps i of Some y \<Rightarrow> y | None \<Rightarrow> 0)
         | None \<Rightarrow> (case info_trailingEps i of Some y \<Rightarrow> y | None \<Rightarrow> 0)),
      target_mean = (case info_targetMeanPrice i of Some x \<Rightarrow> x | None \<Rightarrow> 0),
      beta = (case info_beta i of Some x \<Rightarrow> x | None \<Rightarrow> 1.0),
      ebitda = (case info_ebitda i of Some x \<Rightarrow> x | None \<Rightarrow> 0),
      total_debt = (case info_totalDebt i of Some x \<Rightarrow> x | None \<Rightarrow> 0),
      total_cash = (case info_totalCash i of Some x \<Rightarrow> x | None \<Rightarrow> 0),
      shares = (case info_sharesOutstanding i of Some x \<Rightarrow> x | None \<Rightarrow> 1),
      currency = (case info_currency i of Some x \<Rightarrow> x | None \<Rightarrow> ''USD'')\<rparr>"
  by (simp add: build_snapshot_def get_default_def or_else_def split: option.splits)

lemma build_snapshot_price_nonzero:
  "current_price (build_snapshot py i final_ticker) \<noteq> 0 \<longleftrightarrow>
     (\<exists>x. info_currentPrice i = Some x \<and> x \<noteq> 0) \<or>
     (\<exists>y. info_regularMarketPrice i = Some y \<and> y \<noteq> 0)"
  by (auto simp: build_snapshot_def get_default_def or_else_def split: option.splits)

lemma evaluate_data_succeeds_iff:
  "(\<exists>r. evaluate_data (Some d) industry = Inr r) \<longleftrightarrow> current_price d \<noteq> 0"
  by (simp add: evaluate_data_def Let_def)

text \<open>The example inputs, normalised and resolved.\<close>

lemma example_raw:
  "raw_ticker_of ascii_methods '' 2330 '' = ''2330''"
  "raw_ticker_of ascii_methods ''2330'' = ''2330''"
  "raw_ticker_of ascii_methods '' aapl'' = ''AAPL''"
  by code_simp+

lemma example_digits:
  "isdigit ascii_methods ''2330''" "\<not> isdigit ascii_methods ''AAPL''"
  by code_simp+

lemma example_upper:
  "upper ascii_methods ''2330.two'' = ''2330.TWO''" "upper ascii_methods ''TSM'' = ''TSM''"
  by code_simp+

lemma example_info_price: "has_price example_info" "has_price example_info_zero"
  by (simp_all add: has_price_def example_info_def example_info_zero_def)

lemma example_source_queries:
  "example_source ''2330.TW'' = Raises"
  "example_source ''2330.TWO'' = Returns (Some example_info)"
  by (simp_all add: example_source_def)

lemma example_source_listed_queries:
  "example_source_listed ''2330.TW'' = Returns (Some example_info)"
  by (simp add: example_source_listed_def)


lemma example_source_zero_queries:
  "example_source_zero ''2330.TW'' = Raises"
  "example_source_zero ''2330.TWO'' = Returns (Some example_info_zero)"
  by (simp_all add: example_source_zero_def)

text \<open>
  C6. For every input whose normalised form (the input after \<open>strip\<close> and \<open>upper\<close>)
  satisfies \<open>isdigit\<close>, the candidates are the normalised input with the suffix \<open>.TW\<close>
  and then with the suffix \<open>.TWO\<close>; the resolver queries the first, queries the second
  only if the first is not accepted, and when the first query returns a record with a
  price field the snapshot is built from that record. For every other input the
  normalised input itself is the only candidate and the only symbol queried. This holds
  whatever the three string methods do.
\<close>

theorem candidate_order:
  "(isdigit py (raw_ticker_of py s) \<longrightarrow>
      search_tickers py (raw_ticker_of py s) =
        [raw_ticker_of py s @ ''.TW'', raw_ticker_of py s @ ''.TWO''] \<and>
      queried py src s =
        (if accepted src (raw_ticker_of py s @ ''.TW'') then [raw_ticker_of py s @ ''.TW'']
         else [raw_ticker_of py s @ ''.TW'', raw_ticker_of py s @ ''.TWO'']) \<and>
      (\<forall>i. src (raw_ticker_of py s @ ''.TW'') = Returns (Some i) \<and> has_price i \<longrightarrow>
         get_stock_data_sync py src s =
           Some (build_snapshot py i (raw_ticker_of py s @ ''.TW'')))) \<and>
   (\<not> isdigit py (raw_ticker_of py s) \<longrightarrow>
      search_tickers py (raw_ticker_of py s) = [raw_ticker_of py s] \<and>
      queried py src s = [raw_ticker_of py s])"
  by (simp add: search_tickers_def queried_def get_stock_data_sync_def
      try_tickers_one try_tickers_two try_tickers_first del: try_tickers.simps)

theorem candidate_order_witness:
  "queried ascii_methods example_source_listed '' 2330 '' = [''2330.TW''] \<and>
   get_stock_data_sync ascii_methods example_source_listed '' 2330 '' =
     Some (build_snapshot ascii_methods example_info ''2330.TW'') \<and>
   queried ascii_methods example_source '' 2330 '' = [''2330.TW'', ''2330.TWO''] \<and>
   queried ascii_methods example_source '' aapl'' = [''AAPL'']"
proof -
  have acc: "accepted example_source_listed (''2330'' @ ''.TW'')"
    by (simp add: accepted_def example_source_listed_def example_info_price)
  have na: "\<not> accepted example_source (''2330'' @ ''.TW'')"
    by (simp add: accepted_def example_source_def)
  note l = candidate_order [of ascii_methods "'' 2330 ''" example_source_listed]
  have a: "queried ascii_methods example_source_listed '' 2330 '' = [''2330.TW'']"
    using l acc by (simp add: example_raw example_digits)
  have b: "get_stock_data_sync ascii_methods example_source_listed '' 2330 '' =
      Some (build_snapshot ascii_methods example_info ''2330.TW'')"
    using l example_source_listed_queries example_info_price(1)
    by (simp add: example_raw example_digits)
  have c: "queried ascii_methods example_source '' 2330 '' = [''2330.TW'', ''2330.TWO'']"
    using candidate_order [of ascii_methods "'' 2330 ''" example_source] na
    by (simp add: example_raw example_digits)
  have d: "queried ascii_methods example_source '' aapl'' = [''AAPL'']"
    using candidate_order [of ascii_methods "'' aapl''" example_source]
    by (simp add: example_raw example_digits)
  from a b c d show ?thesis by blast
qed

text \<open>
  C7, as the code has it. For every candidate whose query raises, the resolver goes on
  to the remaining candidates: the outcome is that of the loop over the rest, after
  this query. Resolution returns \<open>None\<close> only when every candidate has been queried and
  none was accepted, and it returns a snapshot whenever some candidate is accepted.
  In particular, for an input with an all-digit normalised form whose first candidate
  raises and whose second candidate returns a record with a price key, both candidates
  are queried and the resolver returns the snapshot built from the second record: its
  symbol is the record's own symbol if it has one and the second candidate otherwise,
  in upper case, and every other field is read from the record with the default of the
  source. The handler accepts this snapshot exactly when the record's \<open>currentPrice\<close>
  is not zero or its \<open>regularMarketPrice\<close> is not zero.
\<close>

theorem errors_swallowed:
  "(src t = Raises \<longrightarrow>
      try_tickers src (t # ts) = (t # fst (try_tickers src ts), snd (try_tickers src ts))) \<and>
   (get_stock_data_sync py src s = None \<longrightarrow>
      queried py src s = search_tickers py (raw_ticker_of py s) \<and>
      (\<forall>c\<in>set (search_tickers py (raw_ticker_of py s)). \<not> accepted src c)) \<and>
   ((\<exists>c\<in>set (search_tickers py (raw_ticker_of py s)). accepted src c) \<longrightarrow>
      get_stock_data_sync py src s \<noteq> None) \<and>
   (isdigit py (raw_ticker_of py s) \<and> src (raw_ticker_of py s @ ''.TW'') = Raises \<and>
    src (raw_ticker_of py s @ ''.TWO'') = Returns (Some i) \<and> has_price i \<longrightarrow>
      queried py src s = [raw_ticker_of py s @ ''.TW'', raw_ticker_of py s @ ''.TWO''] \<and>
      get_stock_data_sync py src s =
        Some \<lparr>symbol = upper py (case info_symbol i of
                                   Some x \<Rightarrow> x | None \<Rightarrow> raw_ticker_of py s @ ''.TWO''),
              name = (case info_shortName i of Some x \<Rightarrow> x | None \<Rightarrow> []),
              current_price =
                (case info_currentPrice i of
                   Some x \<Rightarrow>
                     if x \<noteq> 0 then x
                     else (case info_regularMarketPrice i of Some y \<Rightarrow> y | None \<Rightarrow> 0)
                 | None \<Rightarrow> (case info_regularMarketPrice i of Some y \<Rightarrow> y | None \<Rightarrow> 0)),
              future_eps =
                (case info_forwardEps i of
                   Some x \<Rightarrow>
                     if x \<noteq> 0 then x
                     else (case info_trailingEps i of Some y \<Rightarrow> y | None \<Rightarrow> 0)
                 | None \<Rightarrow> (case info_trailingEps i of Some y \<Rightarrow> y | None \<Rightarrow> 0)),
              target_mean = (case info_targetMeanPrice i of Some x \<Rightarrow> x | None \<Rightarrow> 0),
              beta = (case info_beta i of Some x \<Rightarrow> x | None \<Rightarrow> 1.0),
              ebitda = (case info_ebitda i of Some x \<Rightarrow> x | None \<Rightarrow> 0),
              total_debt = (case info_totalDebt i of Some x \<Rightarrow> x | None \<Rightarrow> 0),
              total_cash = (case info_totalCash i of Some x \<Rightarrow> x | None \<Rightarrow> 0),
              shares = (case info_sharesOutstanding i of Some x \<Rightarrow> x | None \<Rightarrow> 1),
              currency = (case info_currency i of Some x \<Rightarrow> x | None \<Rightarrow> ''USD'')\<rparr> \<and>
      ((\<exists>r. evaluate py src s industry = Inr r) \<longleftrightarrow>
         (\<exists>x. info_currentPrice i = Some x \<and> x \<noteq> 0) \<or>
         (\<exists>y. info_regularMarketPrice i = Some y \<and> y \<noteq> 0)))"
proof -
  let ?cs = "search_tickers py (raw_ticker_of py s)"
  let ?u = "raw_ticker_of py s @ ''.TWO''"
  have none: "get_stock_data_sync py src s = None \<longleftrightarrow> snd (try_tickers src ?cs) = None"
    by (simp add: get_stock_data_sync_def split: option.splits prod.splits)
  have a: "src t = Raises \<longrightarrow>
      try_tickers src (t # ts) = (t # fst (try_tickers src ts), snd (try_tickers src ts))"
    using try_tickers_skip [OF raises_not_accepted] by blast
  have b: "get_stock_data_sync py src s = None \<longrightarrow>
      queried py src s = ?cs \<and> (\<forall>c\<in>set ?cs. \<not> accepted src c)"
    unfolding none queried_def
    using try_tickers_exhausted [of src ?cs] try_tickers_none_iff [of src ?cs] by blast
  have c: "(\<exists>c\<in>set ?cs. accepted src c) \<longrightarrow> get_stock_data_sync py src s \<noteq> None"
    unfolding none using try_tickers_none_iff [of src ?cs] by blast
  have d: "queried py src s = [raw_ticker_of py s @ ''.TW'', ?u] \<and>
      get_stock_data_sync py src s = Some (build_snapshot py i ?u) \<and>
      ((\<exists>r. evaluate py src s industry = Inr r) \<longleftrightarrow>
         (\<exists>x. info_currentPrice i = Some x \<and> x \<noteq> 0) \<or>
         (\<exists>y. info_regularMarketPrice i = Some y \<and> y \<noteq> 0))"
    if h: "isdigit py (raw_ticker_of py s) \<and> src (raw_ticker_of py s @ ''.TW'') = Raises \<and>
      src ?u = Returns (Some i) \<and> has_price i"
  proof -
    from h have na: "\<not> accepted src (raw_ticker_of py s @ ''.TW'')"
      by (simp add: accepted_def)
    from h have dg: "isdigit py (raw_ticker_of py s)" and u: "src ?u = Returns (Some i)"
      and hp: "has_price i"
      by simp_all
    note r = resolve_second [OF dg na u hp]
    have "(\<exists>r. evaluate py src s industry = Inr r) \<longleftrightarrow>
        current_price (build_snapshot py i ?u) \<noteq> 0"
      unfolding evaluate_def r(1) by (rule evaluate_data_succeeds_iff)
    then have "(\<exists>r. evaluate py src s industry = Inr r) \<longleftrightarrow>
         (\<exists>x. info_currentPrice i = Some x \<and> x \<noteq> 0) \<or>
         (\<exists>y. info_regularMarketPrice i = Some y \<and> y \<noteq> 0)"
      by (simp only: build_snapshot_price_nonzero)
    with r show ?thesis by blast
  qed
  show ?thesis
    unfolding build_snapshot_fields [symmetric] using a b c d by blast
qed

theorem errors_swallowed_witness:
  "example_source ''2330.TW'' = Raises \<and>
   queried ascii_methods example_source '' 2330 '' = [''2330.TW'', ''2330.TWO''] \<and>
   map_option symbol (get_stock_data_sync ascii_methods example_source '' 2330 '') =
     Some ''2330.TWO'' \<and>
   map_option current_price (get_stock_data_sync ascii_methods example_source '' 2330 '') =
     Some 600 \<and>
   (\<exists>r. evaluate ascii_methods example_source '' 2330 '' label_financial = Inr r)"
proof -
  have reg: "info_currentPrice example_info = None"
    "info_regularMarketPrice example_info = Some 600"
    "info_symbol example_info = Some ''2330.two''"
    by (simp_all add: example_info_def)
  have hyp: "isdigit ascii_methods (raw_ticker_of ascii_methods '' 2330 '') \<and>
      example_source (raw_ticker_of ascii_methods '' 2330 '' @ ''.TW'') = Raises \<and>
      example_source (raw_ticker_of ascii_methods '' 2330 '' @ ''.TWO'') =
        Returns (Some example_info) \<and>
      has_price example_info"
    by (simp add: example_raw example_digits example_source_queries example_info_price)
  from errors_swallowed [of example_source "''2330.TW''" "[]" ascii_methods "'' 2330 ''"
      example_info label_financial] hyp
  show ?thesis
    by (simp add: example_raw reg example_upper example_source_queries)
qed

text \<open>
  Against C7 as the claim words it: the first candidate raises, the second returns a
  record with a price key, and yet the snapshot returned has the price 0, so that the
  handler answers 404, and carries the symbol \<open>TSM\<close> of the record, not the second
  candidate \<open>2330.TWO\<close>.
\<close>

theorem errors_swallowed_counterexample:
  "isdigit ascii_methods (raw_ticker_of ascii_methods ''2330'') \<and>
   example_source_zero (raw_ticker_of ascii_methods ''2330'' @ ''.TW'') = Raises \<and>
   example_source_zero (raw_ticker_of ascii_methods ''2330'' @ ''.TWO'') =
     Returns (Some example_info_zero) \<and>
   has_price example_info_zero \<and>
   raw_ticker_of ascii_methods ''2330'' @ ''.TWO'' = ''2330.TWO'' \<and>
   map_option symbol (get_stock_data_sync ascii_methods example_source_zero ''2330'') =
     Some ''TSM'' \<and>
   map_option current_price (get_stock_data_sync ascii_methods example_source_zero ''2330'') =
     Some 0 \<and>
   evaluate ascii_methods example_source_zero ''2330'' label_financial =
     Inl (HTTPException 404)"
proof -
  have dg: "isdigit ascii_methods (raw_ticker_of ascii_methods ''2330'')"
    by (simp add: example_raw example_digits)
  have t: "example_source_zero (raw_ticker_of ascii_methods ''2330'' @ ''.TW'') = Raises"
    by (simp add: example_raw example_source_zero_queries)
  have u: "example_source_zero (raw_ticker_of ascii_methods ''2330'' @ ''.TWO'') =
      Returns (Some example_info_zero)"
    by (simp add: example_raw example_source_zero_queries)
  note hp = example_info_price(2)
  have na: "\<not> accepted example_source_zero (raw_ticker_of ascii_methods ''2330'' @ ''.TW'')"
    using t by (simp add: accepted_def)
  have res: "get_stock_data_sync ascii_methods example_source_zero ''2330'' =
      Some (build_snapshot ascii_methods example_info_zero ''2330.TWO'')"
    using resolve_second(1) [OF dg na u hp]
    by (simp add: example_raw)
  have sym: "symbol (build_snapshot ascii_methods example_info_zero ''2330.TWO'') = ''TSM''"
    by (simp add: build_snapshot_def get_default_def example_info_zero_def example_upper)
  have pr: "current_price (build_snapshot ascii_methods example_info_zero ''2330.TWO'') = 0"
    by (simp add: build_snapshot_def get_default_def or_else_def example_info_zero_def)
  have nf: "evaluate ascii_methods example_source_zero ''2330'' label_financial =
      Inl (HTTPException 404)"
    unfolding evaluate_def res by (simp add: evaluate_data_def pr)
  from dg t u hp sym pr nf show ?thesis
    by (simp add: res example_raw)
qed



end
